theory Spec2Isabelle
  imports Main "HOL-Library.Sublist"
begin

section \<open>The config file provider of DevDb\<close>

text \<open>
  A shallow embedding of \<^verbatim>\<open>src/providers/config-file-provider.ts\<close>: the provider
  object \<^verbatim>\<open>ConfigFileProvider\<close> with its methods \<^verbatim>\<open>boot\<close>,
  \<^verbatim>\<open>canBeUsedInCurrentWorkspace\<close> and \<^verbatim>\<open>getDatabaseEngine\<close>, and the three
  resolvers \<^verbatim>\<open>sqliteConfigResolver\<close>, \<^verbatim>\<open>mysqlConfigResolver\<close> and
  \<^verbatim>\<open>postgresConfigResolver\<close>.

  The provider mutates \<^verbatim>\<open>this.cache\<close> and \<^verbatim>\<open>this.engine\<close>; the model passes
  the provider record explicitly. Everything the module imports (the config service, the
  connector, the engine classes, \<^verbatim>\<open>brief\<close>, the editor window) is outside this
  file: what those calls answer is a parameter (the record \<open>env\<close>), and the calls made
  are recorded, in order, in the record \<open>world\<close>.
\<close>

subsection \<open>Data\<close>

text \<open>A JavaScript string field that may be absent: \<open>None\<close> is \<^verbatim>\<open>undefined\<close>.\<close>

type_synonym js_string = "string option"

text \<open>\<^verbatim>\<open>!v\<close> on such a field: true for \<^verbatim>\<open>undefined\<close> and for the empty string.\<close>

definition falsy :: "js_string \<Rightarrow> bool" where
  "falsy v = (case v of None \<Rightarrow> True | Some s \<Rightarrow> s = [])"

text \<open>\<^verbatim>\<open>v || ''\<close> inside a template literal.\<close>

definition or_empty :: "js_string \<Rightarrow> string" where
  "or_empty v = (case v of None \<Rightarrow> [] | Some s \<Rightarrow> s)"

datatype port = PortString string | PortNumber int

text \<open>
  One entry of the configuration list (\<^verbatim>\<open>SqliteConfig | MysqlConfig | PostgresConfig\<close>),
  as the parsed JSON object: the tag is any string, and \<^verbatim>\<open>name\<close> may be absent.
\<close>

record config =
  type_config :: string
  name_config :: js_string
  path :: string
  host :: string
  port :: port
  username :: string
  password :: string
  database :: string

text \<open>The handle that \<^verbatim>\<open>getConnectionFor\<close> answers (a Sequelize object): opaque.\<close>

datatype connection = Connection nat

text \<open>
  An engine object is a reference (\<open>ref\<close>, fresh at every \<^verbatim>\<open>new\<close>) together with the
  class it was built from and the constructor's argument.
\<close>

datatype engine_class =
    SqliteJsEngine string
  | MysqlEngine connection
  | PostgresEngine connection

record database_engine =
  ref :: nat
  impl :: engine_class

text \<open>\<^verbatim>\<open>EngineProviderCache\<close>: one validated connection.\<close>

record engine_provider_cache =
  id_cache :: js_string
  description_cache :: js_string
  details :: js_string
  engine_cache :: database_engine

text \<open>\<^verbatim>\<open>EngineProviderOption\<close>: only \<^verbatim>\<open>option.option.id\<close> is read.\<close>

record engine_provider_option =
  option_id :: string

text \<open>The provider object: its constant fields and the two mutable ones.\<close>

record provider =
  name :: string
  type_provider :: string
  id_provider :: string
  description :: string
  engine :: "database_engine option"
  cache :: "engine_provider_cache list option"

definition ConfigFileProvider :: provider where
  "ConfigFileProvider =
     \<lparr> name = ''Config File'',
       type_provider = ''sqlite'',
       id_provider = ''config-file-provider'',
       description = ''Databases defined in your config file'',
       engine = None,
       cache = None \<rparr>"

subsection \<open>The outside world\<close>

text \<open>
  What the imported functions answer during one call of a provider method.
  \<open>isOkay\<close>, \<open>getDatabase\<close> (is \<^verbatim>\<open>engine.getDatabase()\<close> truthy),
  \<open>sequelize\<close> (is \<^verbatim>\<open>engine.sequelize\<close> truthy) and \<open>has_boot\<close> (is
  \<^verbatim>\<open>engine.boot\<close> defined) are asked of the engine classes, which are not part of
  this module.
\<close>

record env =
  getConfigFileContent :: "config list option"
  getConnectionFor :: "string \<Rightarrow> string \<Rightarrow> port \<Rightarrow> string \<Rightarrow> string \<Rightarrow> string \<Rightarrow> connection option"
  brief :: "string \<Rightarrow> string"
  isOkay :: "engine_class \<Rightarrow> bool"
  getDatabase :: "engine_class \<Rightarrow> bool"
  sequelize :: "engine_class \<Rightarrow> bool"
  has_boot :: "engine_class \<Rightarrow> bool"

text \<open>The effects a method has outside the provider, oldest first.\<close>

datatype event =
    ShownErrorMessage string
  | CalledGetConnectionFor string string port string string string
  | CalledBoot database_engine
  | CalledIsOkay database_engine

record world =
  next_ref :: nat
  events :: "event list"

definition showErrorMessage :: "string \<Rightarrow> world \<Rightarrow> world" where
  "showErrorMessage msg w = w\<lparr>events := events w @ [ShownErrorMessage msg]\<rparr>"

definition new_engine :: "engine_class \<Rightarrow> world \<Rightarrow> database_engine \<times> world" where
  "new_engine c w = (\<lparr>ref = next_ref w, impl = c\<rparr>, w\<lparr>next_ref := Suc (next_ref w)\<rparr>)"

definition engine_boot :: "database_engine \<Rightarrow> world \<Rightarrow> world" where
  "engine_boot e w = w\<lparr>events := events w @ [CalledBoot e]\<rparr>"

definition engine_isOkay :: "env \<Rightarrow> database_engine \<Rightarrow> world \<Rightarrow> bool \<times> world" where
  "engine_isOkay env e w = (isOkay env (impl e), w\<lparr>events := events w @ [CalledIsOkay e]\<rparr>)"

definition call_getConnectionFor ::
  "env \<Rightarrow> string \<Rightarrow> string \<Rightarrow> port \<Rightarrow> string \<Rightarrow> string \<Rightarrow> string \<Rightarrow> world \<Rightarrow> connection option \<times> world" where
  "call_getConnectionFor env dialect h p u pw db w =
     (getConnectionFor env dialect h p u pw db,
      w\<lparr>events := events w @ [CalledGetConnectionFor dialect h p u pw db]\<rparr>)"

subsection \<open>The resolvers\<close>

text \<open>
  In each resolver \<open>engine'\<close> is the local \<^verbatim>\<open>engine\<close> of the source. The sqlite
  resolver boots the engine before asking \<^verbatim>\<open>isOkay\<close>; the two server resolvers do
  not, and return without a message when the connector gives no handle.
\<close>

definition sqliteConfigResolver ::
  "env \<Rightarrow> config \<Rightarrow> world \<Rightarrow> engine_provider_cache option \<times> world" where
  "sqliteConfigResolver env sqliteConnection w =
     (case new_engine (SqliteJsEngine (path sqliteConnection)) w of (engine', w1) \<Rightarrow>
      case engine_isOkay env engine' (engine_boot engine' w1) of (ok, w2) \<Rightarrow>
        if \<not> ok \<or> \<not> getDatabase env (impl engine')
        then (None,
              showErrorMessage
                ''The SQLite database specified in your config file is not valid.'' w2)
        else (Some \<lparr> id_cache = Some (path sqliteConnection),
                     description_cache = Some (brief env (path sqliteConnection)),
                     details = Some (path sqliteConnection),
                     engine_cache = engine' \<rparr>, w2))"

definition mysqlConfigResolver ::
  "env \<Rightarrow> config \<Rightarrow> world \<Rightarrow> engine_provider_cache option \<times> world" where
  "mysqlConfigResolver env mysqlConfig w =
     (case call_getConnectionFor env ''mysql'' (host mysqlConfig) (port mysqlConfig)
             (username mysqlConfig) (password mysqlConfig) (database mysqlConfig) w of
        (None, w1) \<Rightarrow> (None, w1)
      | (Some connection, w1) \<Rightarrow>
         (case new_engine (MysqlEngine connection) w1 of (engine', w2) \<Rightarrow>
          case engine_isOkay env engine' w2 of (ok, w3) \<Rightarrow>
            if \<not> ok \<or> \<not> sequelize env (impl engine')
            then (None,
                  showErrorMessage
                    (''The MySQL connection '' @ or_empty (name_config mysqlConfig)
                       @ '' specified in your config file is not valid.'') w3)
            else (Some \<lparr> id_cache = name_config mysqlConfig,
                         description_cache = name_config mysqlConfig,
                         details = None,
                         engine_cache = engine' \<rparr>, w3)))"

definition postgresConfigResolver ::
  "env \<Rightarrow> config \<Rightarrow> world \<Rightarrow> engine_provider_cache option \<times> world" where
  "postgresConfigResolver env postgresConfig w =
     (case call_getConnectionFor env ''postgres'' (host postgresConfig) (port postgresConfig)
             (username postgresConfig) (password postgresConfig) (database postgresConfig) w of
        (None, w1) \<Rightarrow> (None, w1)
      | (Some connection, w1) \<Rightarrow>
         (case new_engine (PostgresEngine connection) w1 of (engine', w2) \<Rightarrow>
          case engine_isOkay env engine' w2 of (ok, w3) \<Rightarrow>
            if \<not> ok \<or> \<not> sequelize env (impl engine')
            then (None,
                  showErrorMessage
                    (''The Postgres connection '' @ or_empty (name_config postgresConfig)
                       @ '' specified in your config file is not valid.'') w3)
            else (Some \<lparr> id_cache = name_config postgresConfig,
                         description_cache = name_config postgresConfig,
                         details = None,
                         engine_cache = engine' \<rparr>, w3)))"

subsection \<open>The provider's methods\<close>

definition boot :: "provider \<Rightarrow> provider" where
  "boot this = this\<lparr>cache := None, engine := None\<rparr>"

text \<open>\<^verbatim>\<open>if (connection) this.cache.push(connection)\<close>\<close>

definition push_if ::
  "engine_provider_cache option \<Rightarrow> engine_provider_cache list \<Rightarrow> engine_provider_cache list" where
  "push_if connection c = (case connection of None \<Rightarrow> c | Some x \<Rightarrow> c @ [x])"

text \<open>
  The three \<^verbatim>\<open>if\<close> blocks of the loop body, on the pair of \<^verbatim>\<open>this.cache\<close> and the
  world. Each answers \<open>Some b\<close> when it executes \<^verbatim>\<open>return b\<close>, and \<open>None\<close> when
  control falls through to the next statement.
\<close>

type_synonym loop_state = "engine_provider_cache list \<times> world"

definition sqlite_block :: "env \<Rightarrow> config \<Rightarrow> loop_state \<Rightarrow> bool option \<times> loop_state" where
  "sqlite_block env config s =
     (case s of (c, w) \<Rightarrow>
      if type_config config = ''sqlite''
      then (case sqliteConfigResolver env config w of
              (connection, w') \<Rightarrow> (None, (push_if connection c, w')))
      else (None, s))"

definition mysql_block :: "env \<Rightarrow> config \<Rightarrow> loop_state \<Rightarrow> bool option \<times> loop_state" where
  "mysql_block env config s =
     (case s of (c, w) \<Rightarrow>
      if type_config config = ''mysql'' \<or> type_config config = ''mariadb''
      then (if falsy (name_config config)
            then (let db = (if type_config config = ''mysql'' then ''MySQL'' else ''MariaDB'')
                  in (Some False,
                      (c, showErrorMessage
                            (''The '' @ db @ '' config file entry ''
                               @ or_empty (name_config config) @ '' does not have a name.'') w)))
            else (case mysqlConfigResolver env config w of
                    (connection, w') \<Rightarrow> (None, (push_if connection c, w'))))
      else (None, s))"

definition postgres_block :: "env \<Rightarrow> config \<Rightarrow> loop_state \<Rightarrow> bool option \<times> loop_state" where
  "postgres_block env config s =
     (case s of (c, w) \<Rightarrow>
      if type_config config = ''postgres''
      then (if falsy (name_config config)
            then (Some False,
                  (c, showErrorMessage
                        (''The Postgres config file entry ''
                           @ or_empty (name_config config) @ '' does not have a name.'') w))
            else (case postgresConfigResolver env config w of
                    (connection, w') \<Rightarrow> (None, (push_if connection c, w'))))
      else (None, s))"

definition loop_body :: "env \<Rightarrow> config \<Rightarrow> loop_state \<Rightarrow> bool option \<times> loop_state" where
  "loop_body env config s =
     (case sqlite_block env config s of
        (Some r, s1) \<Rightarrow> (Some r, s1)
      | (None, s1) \<Rightarrow>
         (case mysql_block env config s1 of
            (Some r, s2) \<Rightarrow> (Some r, s2)
          | (None, s2) \<Rightarrow> postgres_block env config s2))"

text \<open>
  \<^verbatim>\<open>for (const config of configContent) { ... }\<close>, stopping at the first
  \<^verbatim>\<open>return\<close> of the body.
\<close>

fun for_loop :: "env \<Rightarrow> config list \<Rightarrow> loop_state \<Rightarrow> bool option \<times> loop_state" where
  "for_loop env [] s = (None, s)"
| "for_loop env (config # rest) s =
     (case loop_body env config s of
        (Some r, s') \<Rightarrow> (Some r, s')
      | (None, s') \<Rightarrow> for_loop env rest s')"

text \<open>
  The source pushes into \<^verbatim>\<open>this.cache\<close> in place. The model threads the list
  through the loop and stores it in the provider at either exit of the loop, the early
  \<^verbatim>\<open>return false\<close> included: what was pushed before it stays pushed.
\<close>

definition canBeUsedInCurrentWorkspace ::
  "env \<Rightarrow> provider \<times> world \<Rightarrow> bool \<times> provider \<times> world" where
  "canBeUsedInCurrentWorkspace env s =
     (case s of (this, w) \<Rightarrow>
      case getConfigFileContent env of
        None \<Rightarrow> (False, this, w)
      | Some configContent \<Rightarrow>
          if configContent = [] then (False, this, w)
          else (case for_loop env configContent
                       (case cache this of None \<Rightarrow> [] | Some c \<Rightarrow> c, w) of
                  (Some r, (c', w')) \<Rightarrow> (r, this\<lparr>cache := Some c'\<rparr>, w')
                | (None, (c', w')) \<Rightarrow> (0 < length c', this\<lparr>cache := Some c'\<rparr>, w')))"

text \<open>
  \<^verbatim>\<open>this.cache?.find((cache) => cache.id === option.option.id)\<close>: the first entry
  with that id, \<^verbatim>\<open>undefined\<close> when there is none or the cache is unset.
\<close>

definition find_option ::
  "engine_provider_cache list option \<Rightarrow> engine_provider_option \<Rightarrow> engine_provider_cache option" where
  "find_option c option =
     (case c of None \<Rightarrow> None
      | Some entries \<Rightarrow> find (\<lambda>e. id_cache e = Some (option_id option)) entries)"

text \<open>The tail of \<^verbatim>\<open>getDatabaseEngine\<close>, from \<^verbatim>\<open>if (this.engine?.boot)\<close> on.\<close>

definition boot_and_return ::
  "env \<Rightarrow> provider \<times> world \<Rightarrow> database_engine option \<times> provider \<times> world" where
  "boot_and_return env s =
     (case s of (this, w) \<Rightarrow>
      case engine this of
        None \<Rightarrow> (None, this, w)
      | Some e \<Rightarrow>
          if has_boot env (impl e) then (Some e, this, engine_boot e w)
          else (Some e, this, w))"

definition getDatabaseEngine ::
  "env \<Rightarrow> engine_provider_option option \<Rightarrow> provider \<times> world
     \<Rightarrow> database_engine option \<times> provider \<times> world" where
  "getDatabaseEngine env option s =
     (case s of (this, w) \<Rightarrow>
      case option of
        None \<Rightarrow> boot_and_return env (this, w)
      | Some opt \<Rightarrow>
         (case find_option (cache this) opt of
            None \<Rightarrow>
              (None, this,
               showErrorMessage (''Could not find option with id '' @ option_id opt) w)
          | Some matchedOption \<Rightarrow>
              boot_and_return env (this\<lparr>engine := Some (engine_cache matchedOption)\<rparr>, w)))"

subsection \<open>Vocabulary of the properties\<close>

text \<open>The cache as a list: an unset cache holds nothing.\<close>

definition cached :: "provider \<Rightarrow> engine_provider_cache list" where
  "cached this = (case cache this of None \<Rightarrow> [] | Some c \<Rightarrow> c)"

definition cached_ids :: "provider \<Rightarrow> js_string set" where
  "cached_ids this = (case cache this of None \<Rightarrow> {} | Some c \<Rightarrow> set (map id_cache c))"

text \<open>The identity an entry is cached under: the path of a sqlite entry, the name otherwise.\<close>

definition identity :: "config \<Rightarrow> js_string" where
  "identity c = (if type_config c = ''sqlite'' then Some (path c) else name_config c)"

definition server_type :: "config \<Rightarrow> bool" where
  "server_type c =
     (type_config c = ''mysql'' \<or> type_config c = ''mariadb'' \<or> type_config c = ''postgres'')"

text \<open>The structural error: a server entry whose name is missing or empty.\<close>

definition nameless_server :: "config \<Rightarrow> bool" where
  "nameless_server c = (server_type c \<and> falsy (name_config c))"

definition well_formed :: "config \<Rightarrow> bool" where
  "well_formed c = (\<not> nameless_server c)"

definition connection_of :: "env \<Rightarrow> string \<Rightarrow> config \<Rightarrow> connection option" where
  "connection_of env dialect c =
     getConnectionFor env dialect (host c) (port c) (username c) (password c) (database c)"

text \<open>
  Live validation of one entry, stated on the answers of the outside world alone: the
  engine that would be built for the entry is healthy. An entry of an unknown type has no
  engine and never passes.
\<close>

definition passes_live_validation :: "env \<Rightarrow> config \<Rightarrow> bool" where
  "passes_live_validation env c =
     (if type_config c = ''sqlite''
      then isOkay env (SqliteJsEngine (path c)) \<and> getDatabase env (SqliteJsEngine (path c))
      else if type_config c = ''mysql'' \<or> type_config c = ''mariadb''
      then (case connection_of env ''mysql'' c of
              None \<Rightarrow> False
            | Some conn \<Rightarrow> isOkay env (MysqlEngine conn) \<and> sequelize env (MysqlEngine conn))
      else if type_config c = ''postgres''
      then (case connection_of env ''postgres'' c of
              None \<Rightarrow> False
            | Some conn \<Rightarrow> isOkay env (PostgresEngine conn) \<and> sequelize env (PostgresEngine conn))
      else False)"

text \<open>The message of the structural error, for a nameless server entry.\<close>

definition missing_name_message :: "config \<Rightarrow> string" where
  "missing_name_message c =
     (if type_config c = ''postgres''
      then ''The Postgres config file entry '' @ or_empty (name_config c)
             @ '' does not have a name.''
      else ''The '' @ (if type_config c = ''mysql'' then ''MySQL'' else ''MariaDB'')
             @ '' config file entry '' @ or_empty (name_config c) @ '' does not have a name.'')"

text \<open>The configuration list as a list: no list is no entry.\<close>

definition content_list :: "env \<Rightarrow> config list" where
  "content_list env = (case getConfigFileContent env of None \<Rightarrow> [] | Some cfgs \<Rightarrow> cfgs)"

text \<open>The error messages shown to the user so far, oldest first.\<close>

definition shown_messages :: "world \<Rightarrow> string list" where
  "shown_messages w =
     concat (map (\<lambda>e. case e of ShownErrorMessage m \<Rightarrow> [m] | _ \<Rightarrow> []) (events w))"

text \<open>
  What the loop body adds to the cache for one well-formed entry, between the world \<open>w\<close>
  before and the world \<open>w'\<close> after: one entry under the entry's identity, on an engine
  allocated in between, when the entry passes live validation; nothing otherwise.
\<close>

definition adds ::
  "env \<Rightarrow> config \<Rightarrow> world \<Rightarrow> engine_provider_cache list \<Rightarrow> world \<Rightarrow> bool" where
  "adds env c w new w' =
     (next_ref w \<le> next_ref w' \<and>
      (if passes_live_validation env c
       then (\<exists>e. new = [e] \<and> id_cache e = identity c \<and>
                 next_ref w \<le> ref (engine_cache e) \<and> ref (engine_cache e) < next_ref w')
       else new = []))"

text \<open>
  The same for the whole loop: the entries appended are those of the well-formed prefix of
  the list that pass live validation, in order, each on an engine of its own.
\<close>

definition loop_adds ::
  "env \<Rightarrow> config list \<Rightarrow> world \<Rightarrow> engine_provider_cache list \<Rightarrow> world \<Rightarrow> bool" where
  "loop_adds env cfgs w new w' =
     (next_ref w \<le> next_ref w' \<and>
      map id_cache new =
        map identity (filter (passes_live_validation env) (takeWhile well_formed cfgs)) \<and>
      (\<forall>e\<in>set new. next_ref w \<le> ref (engine_cache e) \<and> ref (engine_cache e) < next_ref w') \<and>
      distinct (map (\<lambda>e. ref (engine_cache e)) new))"

text \<open>
  The invariant of the cache: every cached engine was allocated by a resolver, and no two
  entries share an engine object.
\<close>

definition engines_fresh :: "provider \<Rightarrow> world \<Rightarrow> bool" where
  "engines_fresh this w =
     (case cache this of
        None \<Rightarrow> True
      | Some cs \<Rightarrow> distinct (map (\<lambda>e. ref (engine_cache e)) cs) \<and>
                   (\<forall>e\<in>set cs. ref (engine_cache e) < next_ref w))"

subsection \<open>Example inputs\<close>

definition world0 :: world where
  "world0 = \<lparr>next_ref = 0, events = []\<rparr>"

definition sqlite_entry :: "string \<Rightarrow> config" where
  "sqlite_entry p =
     \<lparr> type_config = ''sqlite'', name_config = None, path = p, host = [],
       port = PortString [], username = [], password = [], database = [] \<rparr>"

definition server_entry :: "string \<Rightarrow> js_string \<Rightarrow> string \<Rightarrow> config" where
  "server_entry t n h =
     \<lparr> type_config = t, name_config = n, path = [], host = h,
       port = PortNumber 3306, username = ''root'', password = ''secret'', database = ''test'' \<rparr>"

text \<open>
  An outside world with one valid database file, a server at \<^verbatim>\<open>127.0.0.1\<close> that is
  healthy, a server at \<^verbatim>\<open>10.0.0.9\<close> that accepts the connection and fails the
  health check, and no other reachable host.
\<close>

definition example_env :: "config list option \<Rightarrow> env" where
  "example_env content =
     \<lparr> getConfigFileContent = content,
       getConnectionFor = (\<lambda>dialect h p u pw db.
          if h = ''127.0.0.1'' then Some (Connection 1)
          else if h = ''10.0.0.9'' then Some (Connection 2)
          else None),
       brief = (\<lambda>s. s),
       isOkay = (\<lambda>k. k = SqliteJsEngine ''/home/app/database.sqlite''
                     \<or> k = MysqlEngine (Connection 1) \<or> k = PostgresEngine (Connection 1)),
       getDatabase = (\<lambda>k. True),
       sequelize = (\<lambda>k. True),
       has_boot = (\<lambda>k. True) \<rparr>"

definition example_entry :: "string \<Rightarrow> nat \<Rightarrow> engine_class \<Rightarrow> engine_provider_cache" where
  "example_entry i r k =
     \<lparr> id_cache = Some i, description_cache = Some i, details = None,
       engine_cache = \<lparr>ref = r, impl = k\<rparr> \<rparr>"

lemmas run_defs =
  canBeUsedInCurrentWorkspace_def loop_body_def sqlite_block_def mysql_block_def
  postgres_block_def sqliteConfigResolver_def mysqlConfigResolver_def postgresConfigResolver_def
  call_getConnectionFor_def engine_isOkay_def engine_boot_def new_engine_def showErrorMessage_def
  push_if_def falsy_def or_empty_def boot_def ConfigFileProvider_def getDatabaseEngine_def
  boot_and_return_def find_option_def

lemmas example_defs =
  world0_def sqlite_entry_def server_entry_def example_env_def example_entry_def

lemmas spec_defs =
  cached_def cached_ids_def identity_def server_type_def nameless_server_def well_formed_def
  connection_of_def passes_live_validation_def shown_messages_def

section \<open>One entry of the list\<close>

lemma sqlite_resolver_adds:
  assumes "type_config c = ''sqlite''"
  shows "adds env c w (push_if (fst (sqliteConfigResolver env c w)) [])
           (snd (sqliteConfigResolver env c w))"
  using assms
  by (simp add: sqliteConfigResolver_def new_engine_def engine_isOkay_def engine_boot_def
      showErrorMessage_def adds_def passes_live_validation_def push_if_def identity_def)

lemma mysql_resolver_adds:
  assumes "type_config c = ''mysql'' \<or> type_config c = ''mariadb''"
  shows "adds env c w (push_if (fst (mysqlConfigResolver env c w)) [])
           (snd (mysqlConfigResolver env c w))"
  using assms
  by (auto simp add: mysqlConfigResolver_def new_engine_def engine_isOkay_def
      call_getConnectionFor_def showErrorMessage_def adds_def passes_live_validation_def
      push_if_def identity_def connection_of_def split: option.splits)

lemma postgres_resolver_adds:
  assumes "type_config c = ''postgres''"
  shows "adds env c w (push_if (fst (postgresConfigResolver env c w)) [])
           (snd (postgresConfigResolver env c w))"
  using assms
  by (auto simp add: postgresConfigResolver_def new_engine_def engine_isOkay_def
      call_getConnectionFor_def showErrorMessage_def adds_def passes_live_validation_def
      push_if_def identity_def connection_of_def split: option.splits)

lemma push_if_append: "push_if r cs = cs @ push_if r []"
  by (simp add: push_if_def split: option.splits)

lemma well_formed_server_has_name:
  assumes "well_formed c" and "server_type c"
  shows "\<not> falsy (name_config c)"
  using assms by (simp add: well_formed_def nameless_server_def)

lemma type_cases:
  obtains (sqlite) "type_config c = ''sqlite''"
    | (mysql) "type_config c = ''mysql'' \<or> type_config c = ''mariadb''"
    | (postgres) "type_config c = ''postgres''"
    | (other) "type_config c \<notin> {''sqlite'', ''mysql'', ''mariadb'', ''postgres''}"
  by auto

lemma loop_body_unknown:
  assumes "type_config config \<notin> {''sqlite'', ''mysql'', ''mariadb'', ''postgres''}"
  shows "loop_body env config s = (None, s)"
  using assms
  by (cases s) (simp add: loop_body_def sqlite_block_def mysql_block_def postgres_block_def)

lemma loop_body_well_formed:
  assumes "well_formed c"
  shows "\<exists>new w'. loop_body env c (cs, w) = (None, (cs @ new, w')) \<and> adds env c w new w'"
proof (cases c rule: type_cases)
  case sqlite
  obtain r w' where rw: "sqliteConfigResolver env c w = (r, w')" by force
  with sqlite_resolver_adds[OF sqlite, of env w] have "adds env c w (push_if r []) w'" by simp
  with sqlite rw show ?thesis
    using push_if_append[of r cs]
    by (simp add: loop_body_def sqlite_block_def mysql_block_def postgres_block_def)
next
  case mysql
  obtain r w' where rw: "mysqlConfigResolver env c w = (r, w')" by force
  with mysql_resolver_adds[OF mysql, of env w] have a: "adds env c w (push_if r []) w'" by simp
  from mysql have "server_type c" by (auto simp: server_type_def)
  from well_formed_server_has_name[OF assms this] mysql rw a show ?thesis
    using push_if_append[of r cs]
    by (auto simp add: loop_body_def sqlite_block_def mysql_block_def postgres_block_def)
next
  case postgres
  obtain r w' where rw: "postgresConfigResolver env c w = (r, w')" by force
  with postgres_resolver_adds[OF postgres, of env w] have a: "adds env c w (push_if r []) w'"
    by simp
  from postgres have "server_type c" by (simp add: server_type_def)
  from well_formed_server_has_name[OF assms this] postgres rw a show ?thesis
    using push_if_append[of r cs]
    by (auto simp add: loop_body_def sqlite_block_def mysql_block_def postgres_block_def)
next
  case other
  then have "\<not> passes_live_validation env c" by (auto simp: passes_live_validation_def)
  with loop_body_unknown[OF other, of env "(cs, w)"] show ?thesis
    by (simp add: adds_def)
qed

lemma loop_body_nameless:
  assumes "nameless_server c"
  shows "\<exists>w'. loop_body env c (cs, w) = (Some False, (cs, w')) \<and> next_ref w' = next_ref w"
  using assms
  by (auto simp: nameless_server_def server_type_def loop_body_def sqlite_block_def
      mysql_block_def postgres_block_def showErrorMessage_def)

section \<open>The loop\<close>

lemma for_loop_unknown:
  assumes "type_config config \<notin> {''sqlite'', ''mysql'', ''mariadb'', ''postgres''}"
  shows "for_loop env (before @ config # after) s = for_loop env (before @ after) s"
proof (induction before arbitrary: s)
  case Nil
  then show ?case using loop_body_unknown[OF assms] by simp
next
  case (Cons a before)
  then show ?case by (simp split: prod.splits option.splits)
qed

lemma loop_adds_Nil: "loop_adds env [] w [] w"
  by (simp add: loop_adds_def)

lemma loop_adds_stop:
  "\<not> well_formed c \<Longrightarrow> next_ref w' = next_ref w \<Longrightarrow> loop_adds env (c # rest) w [] w'"
  by (simp add: loop_adds_def)

lemma loop_adds_Cons:
  assumes "well_formed c" and "adds env c w new1 w1" and "loop_adds env rest w1 new2 w2"
  shows "loop_adds env (c # rest) w (new1 @ new2) w2"
  using assms unfolding adds_def loop_adds_def
  by (fastforce split: if_splits)

text \<open>
  The loop runs over the well-formed prefix of the list and stops, with
  \<^verbatim>\<open>return false\<close>, at the first nameless server entry.
\<close>

lemma for_loop_result:
  "\<exists>new w'. for_loop env cfgs (cs, w) =
             (if list_all well_formed cfgs then None else Some False, (cs @ new, w'))
           \<and> loop_adds env cfgs w new w'"
proof (induction cfgs arbitrary: cs w)
  case Nil
  show ?case using loop_adds_Nil by simp
next
  case (Cons c rest)
  show ?case
  proof (cases "well_formed c")
    case True
    from loop_body_well_formed[OF True, of env cs w] obtain new1 w1
      where b: "loop_body env c (cs, w) = (None, (cs @ new1, w1))" and a: "adds env c w new1 w1"
      by blast
    from Cons.IH[of "cs @ new1" w1] obtain new2 w2
      where l: "for_loop env rest (cs @ new1, w1) =
                  (if list_all well_formed rest then None else Some False,
                   ((cs @ new1) @ new2, w2))"
        and r: "loop_adds env rest w1 new2 w2"
      by blast
    have "for_loop env (c # rest) (cs, w) =
            (if list_all well_formed (c # rest) then None else Some False,
             (cs @ (new1 @ new2), w2))"
      using b l True by simp
    with loop_adds_Cons[OF True a r] show ?thesis by blast
  next
    case False
    then have "nameless_server c" by (simp add: well_formed_def)
    from loop_body_nameless[OF this, of env cs w] obtain w'
      where "loop_body env c (cs, w) = (Some False, (cs, w'))" "next_ref w' = next_ref w"
      by blast
    with False loop_adds_stop[OF False, of w' w env rest] show ?thesis by auto
  qed
qed

section \<open>Resolution\<close>

text \<open>
  On a non-empty list \<^verbatim>\<open>canBeUsedInCurrentWorkspace\<close> keeps what the cache held and
  appends what the loop adds; it answers \<open>True\<close> when no entry is a nameless server
  entry and the cache ends non-empty.
\<close>

lemma canBeUsed_result:
  assumes "getConfigFileContent env = Some cfgs" and "cfgs \<noteq> []"
  shows "\<exists>new w'. canBeUsedInCurrentWorkspace env (this, w) =
           (list_all well_formed cfgs \<and> cached this @ new \<noteq> [],
            this\<lparr>cache := Some (cached this @ new)\<rparr>, w')
           \<and> loop_adds env cfgs w new w'"
proof -
  from for_loop_result[of env cfgs "cached this" w]
  obtain new w' where
    "for_loop env cfgs (cached this, w) =
       (if list_all well_formed cfgs then None else Some False, (cached this @ new, w'))"
    and "loop_adds env cfgs w new w'"
    by blast
  with assms show ?thesis
    by (auto simp: canBeUsedInCurrentWorkspace_def cached_def)
qed

lemma canBeUsed_no_content:
  assumes "\<not> (\<exists>cfgs. getConfigFileContent env = Some cfgs \<and> cfgs \<noteq> [])"
  shows "canBeUsedInCurrentWorkspace env (this, w) = (False, this, w)"
  using assms by (auto simp: canBeUsedInCurrentWorkspace_def split: option.splits)

lemma all_well_formed:
  assumes "\<forall>c\<in>set cfgs. well_formed c"
  shows "list_all well_formed cfgs" and "takeWhile well_formed cfgs = cfgs"
  using assms by (auto simp: list_all_iff)

text \<open>The cache invariant holds after \<^verbatim>\<open>boot\<close> and is kept by both other methods.\<close>

lemma boot_engines_fresh: "engines_fresh (boot this) w"
  by (simp add: engines_fresh_def boot_def)

lemma canBeUsed_engines_fresh:
  assumes "engines_fresh this w"
    and "canBeUsedInCurrentWorkspace env (this, w) = (r, this', w')"
  shows "engines_fresh this' w'"
proof (cases "\<exists>cfgs. getConfigFileContent env = Some cfgs \<and> cfgs \<noteq> []")
  case False
  from canBeUsed_no_content[OF this, of this w] assms show ?thesis by simp
next
  case True
  then obtain cfgs where c: "getConfigFileContent env = Some cfgs" "cfgs \<noteq> []" by blast
  from canBeUsed_result[OF c, of this w] assms(2) obtain new
    where t: "this' = this\<lparr>cache := Some (cached this @ new)\<rparr>"
      and l: "loop_adds env cfgs w new w'"
    by auto
  show ?thesis
    using assms(1) l unfolding t engines_fresh_def loop_adds_def cached_def
    by (fastforce split: option.splits)
qed

lemma getDatabaseEngine_engines_fresh:
  assumes "engines_fresh this w"
    and "getDatabaseEngine env opt (this, w) = (r, this', w')"
  shows "engines_fresh this' w'"
  using assms
  by (auto simp: getDatabaseEngine_def boot_and_return_def engines_fresh_def engine_boot_def
      showErrorMessage_def split: option.splits if_splits)

text \<open>Only \<^verbatim>\<open>canBeUsedInCurrentWorkspace\<close> itself reads the configuration list.\<close>

lemma resolvers_content_irrelevant:
  "sqliteConfigResolver (env\<lparr>getConfigFileContent := x\<rparr>) c w = sqliteConfigResolver env c w"
  "mysqlConfigResolver (env\<lparr>getConfigFileContent := x\<rparr>) c w = mysqlConfigResolver env c w"
  "postgresConfigResolver (env\<lparr>getConfigFileContent := x\<rparr>) c w = postgresConfigResolver env c w"
  by (simp_all add: sqliteConfigResolver_def mysqlConfigResolver_def postgresConfigResolver_def
      engine_isOkay_def call_getConnectionFor_def new_engine_def split: option.splits)

lemma blocks_content_irrelevant:
  "sqlite_block (env\<lparr>getConfigFileContent := x\<rparr>) c s = sqlite_block env c s"
  "mysql_block (env\<lparr>getConfigFileContent := x\<rparr>) c s = mysql_block env c s"
  "postgres_block (env\<lparr>getConfigFileContent := x\<rparr>) c s = postgres_block env c s"
  by (cases s, simp add: sqlite_block_def mysql_block_def postgres_block_def
      resolvers_content_irrelevant)+

lemma loop_body_content_irrelevant:
  "loop_body (env\<lparr>getConfigFileContent := x\<rparr>) c s = loop_body env c s"
  by (simp add: loop_body_def blocks_content_irrelevant split: prod.splits option.splits)

lemma for_loop_content_irrelevant:
  "for_loop (env\<lparr>getConfigFileContent := x\<rparr>) cfgs s = for_loop env cfgs s"
  by (induction cfgs arbitrary: s)
     (auto simp: loop_body_content_irrelevant split: prod.splits option.splits)

section \<open>Selection\<close>

lemma find_option_absent:
  "Some (option_id opt) \<notin> cached_ids this \<Longrightarrow> find_option (cache this) opt = None"
  by (force simp: cached_ids_def find_option_def find_None_iff split: option.splits)

lemma find_only:
  assumes "x \<in> set xs" and "P x" and "\<forall>y\<in>set xs. P y \<longrightarrow> y = x"
  shows "find P xs = Some x"
proof -
  from assms(1,2) obtain y where y: "find P xs = Some y"
    by (cases "find P xs") (auto simp: find_None_iff)
  then have "y \<in> set xs" "P y"
    by (auto simp: find_Some_iff)
  with assms(3) y show ?thesis by blast
qed

lemma map_eq_two:
  assumes "map f xs = [a, b]"
  shows "\<exists>x y. xs = [x, y] \<and> f x = a \<and> f y = b"
  using assms by (cases xs; cases "tl xs"; auto)

section \<open>Messages\<close>

lemma mysql_message_names:
  "sublist n (''The MySQL connection '' @ n @ '' specified in your config file is not valid.'')"
  unfolding sublist_def by blast

lemma postgres_message_names:
  "sublist n (''The Postgres connection '' @ n @ '' specified in your config file is not valid.'')"
  unfolding sublist_def by blast

section \<open>The first nameless server entry\<close>

lemma loop_body_nameless_exact:
  assumes "nameless_server c"
  shows "loop_body env c (cs, w) = (Some False, (cs, showErrorMessage (missing_name_message c) w))"
  using assms
  by (auto simp: nameless_server_def server_type_def loop_body_def sqlite_block_def
      mysql_block_def postgres_block_def missing_name_message_def)

lemma for_loop_stops:
  assumes "list_all well_formed pre" and "nameless_server bad"
  shows "\<exists>cs1 w1. for_loop env pre (cs, w) = (None, (cs1, w1)) \<and>
           for_loop env (pre @ bad # post) (cs, w) =
             (Some False, (cs1, showErrorMessage (missing_name_message bad) w1))"
  using assms(1)
proof (induction pre arbitrary: cs w)
  case Nil
  show ?case using loop_body_nameless_exact[OF assms(2)] by simp
next
  case (Cons a pre)
  then have wa: "well_formed a" and wp: "list_all well_formed pre" by simp_all
  from loop_body_well_formed[OF wa, of env cs w] obtain new1 w0
    where b: "loop_body env a (cs, w) = (None, (cs @ new1, w0))" by blast
  from Cons.IH[OF wp, of "cs @ new1" w0] b show ?case by simp
qed

lemma first_nameless:
  assumes "\<exists>c\<in>set cfgs. nameless_server c"
  shows "cfgs = takeWhile well_formed cfgs @ hd (dropWhile well_formed cfgs) # tl (dropWhile well_formed cfgs)"
    and "nameless_server (hd (dropWhile well_formed cfgs))"
    and "list_all well_formed (takeWhile well_formed cfgs)"
proof -
  from assms have ne: "dropWhile well_formed cfgs \<noteq> []"
    by (auto simp: dropWhile_eq_Nil_conv well_formed_def)
  then show "cfgs = takeWhile well_formed cfgs @ hd (dropWhile well_formed cfgs) # tl (dropWhile well_formed cfgs)"
    by simp
  from ne have "\<not> well_formed (hd (dropWhile well_formed cfgs))" by (rule hd_dropWhile)
  then show "nameless_server (hd (dropWhile well_formed cfgs))" by (simp add: well_formed_def)
  show "list_all well_formed (takeWhile well_formed cfgs)"
    by (auto simp: list_all_iff dest: set_takeWhileD)
qed

section \<open>Properties of resolution\<close>

text \<open>
  Claim C1, as the code has it. When the configuration list contains a mysql, mariadb or
  postgres entry whose name is missing or empty, \<^verbatim>\<open>canBeUsedInCurrentWorkspace\<close>
  answers \<open>False\<close>, whatever other entries the list has. The cache is not emptied: it
  keeps what it held and gains, in order, the entries in front of the first nameless server
  entry that pass live validation. The entries behind that one are never examined: the
  world left is the one the loop leaves on the entries in front, followed by the one
  message that the name is missing, and the whole result is that of the list cut off after
  the first nameless server entry.
\<close>

theorem nameless_server_entry_returns_false:
  assumes "getConfigFileContent env = Some cfgs" and "\<exists>c\<in>set cfgs. nameless_server c"
  shows "\<exists>new w1.
           for_loop env (takeWhile well_formed cfgs) (cached this, w) =
             (None, (cached this @ new, w1)) \<and>
           canBeUsedInCurrentWorkspace env (this, w) =
             (False, this\<lparr>cache := Some (cached this @ new)\<rparr>,
              showErrorMessage (missing_name_message (hd (dropWhile well_formed cfgs))) w1) \<and>
           map id_cache new =
             map identity (filter (passes_live_validation env) (takeWhile well_formed cfgs)) \<and>
           canBeUsedInCurrentWorkspace env (this, w) =
             canBeUsedInCurrentWorkspace
               (env\<lparr>getConfigFileContent :=
                      Some (takeWhile well_formed cfgs @ [hd (dropWhile well_formed cfgs)])\<rparr>)
               (this, w)"
proof -
  let ?pre = "takeWhile well_formed cfgs"
  let ?bad = "hd (dropWhile well_formed cfgs)"
  let ?post = "tl (dropWhile well_formed cfgs)"
  note f = first_nameless[OF assms(2)]
  from f(1) have ne: "cfgs \<noteq> []" by auto
  from for_loop_result[of env ?pre "cached this" w] f(3) obtain new w1
    where p: "for_loop env ?pre (cached this, w) = (None, (cached this @ new, w1))"
      and l: "loop_adds env ?pre w new w1"
    by auto
  from for_loop_stops[OF f(3) f(2), of env "cached this" w ?post] p
  have "for_loop env (?pre @ ?bad # ?post) (cached this, w) =
          (Some False, (cached this @ new, showErrorMessage (missing_name_message ?bad) w1))"
    by auto
  with f(1) have "for_loop env cfgs (cached this, w) =
          (Some False, (cached this @ new, showErrorMessage (missing_name_message ?bad) w1))"
    by simp
  with assms(1) ne have "canBeUsedInCurrentWorkspace env (this, w) =
             (False, this\<lparr>cache := Some (cached this @ new)\<rparr>,
              showErrorMessage (missing_name_message ?bad) w1)"
    by (simp add: canBeUsedInCurrentWorkspace_def cached_def)
  moreover from l have "map id_cache new =
             map identity (filter (passes_live_validation env) ?pre)"
    by (simp add: loop_adds_def)
  moreover from for_loop_stops[OF f(3) f(2), of env "cached this" w "[]"] p
  have "for_loop env (?pre @ [?bad]) (cached this, w) =
          (Some False, (cached this @ new, showErrorMessage (missing_name_message ?bad) w1))"
    by auto
  then have "canBeUsedInCurrentWorkspace
               (env\<lparr>getConfigFileContent := Some (?pre @ [?bad])\<rparr>) (this, w) =
             (False, this\<lparr>cache := Some (cached this @ new)\<rparr>,
              showErrorMessage (missing_name_message ?bad) w1)"
    by (simp add: canBeUsedInCurrentWorkspace_def cached_def for_loop_content_irrelevant)
  ultimately show ?thesis using p by auto
qed

theorem nameless_server_entry_returns_false_witness:
  "\<exists>new. canBeUsedInCurrentWorkspace
              (example_env (Some [sqlite_entry ''/home/app/database.sqlite'',
                                  server_entry ''mysql'' None ''127.0.0.1'',
                                  server_entry ''postgres'' (Some ''pg'') ''127.0.0.1'']))
              (boot ConfigFileProvider, world0)
            = (False, (boot ConfigFileProvider)\<lparr>cache := Some new\<rparr>,
               \<lparr>next_ref = 1,
                events = [CalledBoot \<lparr>ref = 0, impl = SqliteJsEngine ''/home/app/database.sqlite''\<rparr>,
                          CalledIsOkay \<lparr>ref = 0, impl = SqliteJsEngine ''/home/app/database.sqlite''\<rparr>,
                          ShownErrorMessage ''The MySQL config file entry  does not have a name.'']\<rparr>)
          \<and> map id_cache new = [Some ''/home/app/database.sqlite'']"
proof -
  let ?cfgs = "[sqlite_entry ''/home/app/database.sqlite'',
                server_entry ''mysql'' None ''127.0.0.1'',
                server_entry ''postgres'' (Some ''pg'') ''127.0.0.1'']"
  let ?E = "example_env (Some ?cfgs)"
  have h1: "getConfigFileContent ?E = Some ?cfgs"
    by (simp add: example_env_def)
  have h2: "\<exists>c\<in>set ?cfgs. nameless_server c"
    by (simp add: example_defs spec_defs falsy_def)
  have tw: "takeWhile well_formed ?cfgs = [sqlite_entry ''/home/app/database.sqlite'']"
    and dw: "hd (dropWhile well_formed ?cfgs) = server_entry ''mysql'' None ''127.0.0.1''"
    by (simp_all add: example_defs spec_defs falsy_def)
  have e: "map identity (filter (passes_live_validation ?E)
             [sqlite_entry ''/home/app/database.sqlite'']) = [Some ''/home/app/database.sqlite'']"
    by (simp add: example_defs spec_defs falsy_def)
  have c: "cached (boot ConfigFileProvider) = []"
    by (simp add: cached_def boot_def ConfigFileProvider_def)
  have m: "missing_name_message (server_entry ''mysql'' None ''127.0.0.1'')
             = ''The MySQL config file entry  does not have a name.''"
    by (simp add: missing_name_message_def server_entry_def or_empty_def)
  have w1: "snd (snd (for_loop ?E [sqlite_entry ''/home/app/database.sqlite''] ([], world0)))
              = \<lparr>next_ref = 1,
                 events = [CalledBoot \<lparr>ref = 0, impl = SqliteJsEngine ''/home/app/database.sqlite''\<rparr>,
                           CalledIsOkay \<lparr>ref = 0, impl = SqliteJsEngine ''/home/app/database.sqlite''\<rparr>]\<rparr>"
    by (simp add: run_defs example_defs)
  from nameless_server_entry_returns_false[OF h1 h2, of "boot ConfigFileProvider" world0] obtain new w1
    where a: "for_loop ?E [sqlite_entry ''/home/app/database.sqlite''] ([], world0) = (None, (new, w1))"
      and b: "canBeUsedInCurrentWorkspace ?E (boot ConfigFileProvider, world0) =
                (False, (boot ConfigFileProvider)\<lparr>cache := Some new\<rparr>,
                 showErrorMessage ''The MySQL config file entry  does not have a name.'' w1)"
      and i: "map id_cache new = [Some ''/home/app/database.sqlite'']"
    unfolding tw dw e c m by auto
  from a w1 have "w1 = \<lparr>next_ref = 1,
                 events = [CalledBoot \<lparr>ref = 0, impl = SqliteJsEngine ''/home/app/database.sqlite''\<rparr>,
                           CalledIsOkay \<lparr>ref = 0, impl = SqliteJsEngine ''/home/app/database.sqlite''\<rparr>]\<rparr>"
    by simp
  with b have "canBeUsedInCurrentWorkspace ?E (boot ConfigFileProvider, world0) =
      (False, (boot ConfigFileProvider)\<lparr>cache := Some new\<rparr>,
       \<lparr>next_ref = 1,
        events = [CalledBoot \<lparr>ref = 0, impl = SqliteJsEngine ''/home/app/database.sqlite''\<rparr>,
                  CalledIsOkay \<lparr>ref = 0, impl = SqliteJsEngine ''/home/app/database.sqlite''\<rparr>,
                  ShownErrorMessage ''The MySQL config file entry  does not have a name.'']\<rparr>)"
    by (simp add: showErrorMessage_def)
  with i show ?thesis by (intro exI[of _ new]) simp
qed

text \<open>
  Claim C1 as stated fails: on a freshly booted provider, a valid sqlite entry followed by
  a nameless mysql entry gives \<open>False\<close> and a cache that holds the sqlite entry.
\<close>

theorem nameless_server_entry_cache_not_empty:
  "\<not> (fst (canBeUsedInCurrentWorkspace
              (example_env (Some [sqlite_entry ''/home/app/database.sqlite'',
                                  server_entry ''mysql'' None ''127.0.0.1'']))
              (boot ConfigFileProvider, world0)) = False
      \<and> cached (fst (snd (canBeUsedInCurrentWorkspace
              (example_env (Some [sqlite_entry ''/home/app/database.sqlite'',
                                  server_entry ''mysql'' None ''127.0.0.1'']))
              (boot ConfigFileProvider, world0)))) = [])"
  by (simp add: run_defs example_defs spec_defs)

text \<open>
  Claim C2. On a freshly booted provider and a list with no nameless server entry,
  \<^verbatim>\<open>canBeUsedInCurrentWorkspace\<close> answers \<open>True\<close> exactly when some entry of the
  list passes live validation, and exactly when the cache it leaves is non-empty.
\<close>

theorem usable_iff_some_entry_passes:
  assumes "getConfigFileContent env = Some cfgs" and "\<forall>c\<in>set cfgs. well_formed c"
    and "canBeUsedInCurrentWorkspace env (boot this, w) = (r, this', w')"
  shows "r = (\<exists>c\<in>set cfgs. passes_live_validation env c) \<and> r = (cached this' \<noteq> [])"
proof (cases "cfgs = []")
  case True
  with assms show ?thesis
    by (auto simp: canBeUsedInCurrentWorkspace_def cached_def boot_def)
next
  case False
  have b: "cached (boot this) = []" by (simp add: cached_def boot_def)
  note wf = all_well_formed[OF assms(2)]
  from canBeUsed_result[OF assms(1) False, of "boot this" w] assms(3) obtain new
    where r: "r = (list_all well_formed cfgs \<and> new \<noteq> [])"
      and t: "this' = (boot this)\<lparr>cache := Some new\<rparr>"
      and l: "loop_adds env cfgs w new w'"
    unfolding b by auto
  from l wf have "map id_cache new = map identity (filter (passes_live_validation env) cfgs)"
    by (simp add: loop_adds_def)
  then have "(new \<noteq> []) = (filter (passes_live_validation env) cfgs \<noteq> [])"
    by (metis map_is_Nil_conv)
  then have "(new \<noteq> []) = (\<exists>c\<in>set cfgs. passes_live_validation env c)"
    by (simp add: filter_empty_conv)
  with r t wf show ?thesis by (simp add: cached_def)
qed

theorem usable_iff_some_entry_passes_witness:
  "fst (canBeUsedInCurrentWorkspace
          (example_env (Some [sqlite_entry ''/tmp/missing.sqlite'',
                              server_entry ''mariadb'' (Some ''legacy'') ''127.0.0.1'']))
          (boot ConfigFileProvider, world0))
   \<and> passes_live_validation
         (example_env (Some [sqlite_entry ''/tmp/missing.sqlite'',
                             server_entry ''mariadb'' (Some ''legacy'') ''127.0.0.1'']))
         (server_entry ''mariadb'' (Some ''legacy'') ''127.0.0.1'')
   \<and> cached (fst (snd (canBeUsedInCurrentWorkspace
          (example_env (Some [sqlite_entry ''/tmp/missing.sqlite'',
                              server_entry ''mariadb'' (Some ''legacy'') ''127.0.0.1'']))
          (boot ConfigFileProvider, world0)))) \<noteq> []"
proof -
  let ?cfgs = "[sqlite_entry ''/tmp/missing.sqlite'',
                server_entry ''mariadb'' (Some ''legacy'') ''127.0.0.1'']"
  let ?R = "canBeUsedInCurrentWorkspace (example_env (Some ?cfgs)) (boot ConfigFileProvider, world0)"
  have h1: "getConfigFileContent (example_env (Some ?cfgs)) = Some ?cfgs"
    by (simp add: example_env_def)
  have h2: "\<forall>c\<in>set ?cfgs. well_formed c"
    by (simp add: example_defs spec_defs falsy_def)
  have h3: "?R = (fst ?R, fst (snd ?R), snd (snd ?R))" by simp
  have p: "passes_live_validation (example_env (Some ?cfgs))
             (server_entry ''mariadb'' (Some ''legacy'') ''127.0.0.1'')"
    by (simp add: example_defs spec_defs)
  from usable_iff_some_entry_passes[OF h1 h2 h3] p show ?thesis by auto
qed

text \<open>
  Claim C3, as the code has it. When the cache is already set,
  \<^verbatim>\<open>canBeUsedInCurrentWorkspace\<close> never clears it: the cache it leaves is the old one
  with entries appended, namely the entries of the list in front of its first nameless
  server entry (all of them when there is none) that pass live validation, in order, under
  their identities; an identity already cached is cached again. The answer is whether the
  combined cache is non-empty only when the list is non-empty and has no nameless server
  entry; with no list, an empty list or a nameless server entry the answer is \<open>False\<close>
  whatever the cache holds. So with a non-empty old cache and a non-empty list without
  nameless server entries the answer is \<open>True\<close> even when every entry fails validation.
\<close>

theorem rerun_appends_to_cache:
  assumes "cache this = Some old"
    and "canBeUsedInCurrentWorkspace env (this, w) = (r, this', w')"
  shows "\<exists>new. cache this' = Some (old @ new) \<and>
           map id_cache new =
             map identity (filter (passes_live_validation env)
                             (takeWhile well_formed (content_list env))) \<and>
           r = (content_list env \<noteq> [] \<and> list_all well_formed (content_list env) \<and>
                old @ new \<noteq> []) \<and>
           (old \<noteq> [] \<and> content_list env \<noteq> [] \<and> list_all well_formed (content_list env)
              \<longrightarrow> r)"
proof (cases "\<exists>cs. getConfigFileContent env = Some cs \<and> cs \<noteq> []")
  case False
  then have e: "content_list env = []"
    by (auto simp: content_list_def split: option.splits)
  from canBeUsed_no_content[OF False, of this w] assms show ?thesis
    unfolding e by auto
next
  case True
  then obtain cs where c: "getConfigFileContent env = Some cs" "cs \<noteq> []" by blast
  then have e: "content_list env = cs" by (simp add: content_list_def)
  have b: "cached this = old" using assms(1) by (simp add: cached_def)
  from canBeUsed_result[OF c, of this w] assms(2) obtain new
    where r: "r = (list_all well_formed cs \<and> old @ new \<noteq> [])"
      and t: "this' = this\<lparr>cache := Some (old @ new)\<rparr>"
      and l: "loop_adds env cs w new w'"
    unfolding b by auto
  from l have "map id_cache new =
      map identity (filter (passes_live_validation env) (takeWhile well_formed cs))"
    by (simp add: loop_adds_def)
  with r t c(2) show ?thesis unfolding e by auto
qed

theorem rerun_appends_to_cache_witness:
  "fst (canBeUsedInCurrentWorkspace
     (example_env (Some [sqlite_entry ''/tmp/missing.sqlite'',
                         server_entry ''mysql'' (Some ''staging'') ''10.0.0.9'']))
     (ConfigFileProvider\<lparr>cache := Some [example_entry ''old'' 0 (MysqlEngine (Connection 1))]\<rparr>,
      world0\<lparr>next_ref := 1\<rparr>))
   \<and> cache (fst (snd (canBeUsedInCurrentWorkspace
        (example_env (Some [sqlite_entry ''/tmp/missing.sqlite'',
                            server_entry ''mysql'' (Some ''staging'') ''10.0.0.9'']))
        (ConfigFileProvider\<lparr>cache := Some [example_entry ''old'' 0 (MysqlEngine (Connection 1))]\<rparr>,
         world0\<lparr>next_ref := 1\<rparr>))))
     = Some [example_entry ''old'' 0 (MysqlEngine (Connection 1))]"
proof -
  let ?cfgs = "[sqlite_entry ''/tmp/missing.sqlite'',
                server_entry ''mysql'' (Some ''staging'') ''10.0.0.9'']"
  let ?old = "[example_entry ''old'' 0 (MysqlEngine (Connection 1))]"
  let ?prov = "ConfigFileProvider\<lparr>cache := Some ?old\<rparr>"
  let ?E = "example_env (Some ?cfgs)"
  let ?R = "canBeUsedInCurrentWorkspace ?E (?prov, world0\<lparr>next_ref := 1\<rparr>)"
  have h1: "cache ?prov = Some ?old" by simp
  have h2: "?R = (fst ?R, fst (snd ?R), snd (snd ?R))" by simp
  have cl: "content_list ?E = ?cfgs" by (simp add: content_list_def example_env_def)
  have g: "?cfgs \<noteq> [] \<and> list_all well_formed ?cfgs"
    by (simp add: example_defs spec_defs falsy_def)
  have e: "map identity (filter (passes_live_validation ?E) (takeWhile well_formed ?cfgs)) = []"
    by (simp add: example_defs spec_defs falsy_def)
  from rerun_appends_to_cache[OF h1 h2] obtain new
    where "cache (fst (snd ?R)) = Some (?old @ new)"
      and "map id_cache new = []"
      and "fst ?R = (?cfgs \<noteq> [] \<and> list_all well_formed ?cfgs \<and> ?old @ new \<noteq> [])"
    unfolding cl e by blast
  with g show ?thesis by simp
qed

text \<open>
  Claim C3 as stated fails: with one entry cached, a list of a valid sqlite entry and a
  nameless postgres entry gives \<open>False\<close> although the combined cache holds two entries,
  so the answer is not computed from the length of the combined cache.
\<close>

theorem rerun_result_not_cache_length:
  "\<not> (fst (canBeUsedInCurrentWorkspace
              (example_env (Some [sqlite_entry ''/home/app/database.sqlite'',
                                  server_entry ''postgres'' None ''127.0.0.1'']))
              (ConfigFileProvider\<lparr>cache := Some [example_entry ''old'' 0 (MysqlEngine (Connection 1))]\<rparr>,
               world0\<lparr>next_ref := 1\<rparr>))
        = (0 < length (cached (fst (snd (canBeUsedInCurrentWorkspace
              (example_env (Some [sqlite_entry ''/home/app/database.sqlite'',
                                  server_entry ''postgres'' None ''127.0.0.1'']))
              (ConfigFileProvider\<lparr>cache := Some [example_entry ''old'' 0 (MysqlEngine (Connection 1))]\<rparr>,
               world0\<lparr>next_ref := 1\<rparr>)))))))"
  by (simp add: run_defs example_defs spec_defs)

text \<open>
  The duplication C3 speaks of: resolving the same valid sqlite entry twice, without a
  \<^verbatim>\<open>boot\<close> in between, caches its path twice, on two engines.
\<close>

lemma rerun_duplicates_identity:
  "map (\<lambda>e. (id_cache e, ref (engine_cache e)))
     (cached (fst (snd (canBeUsedInCurrentWorkspace
        (example_env (Some [sqlite_entry ''/home/app/database.sqlite'']))
        (snd (canBeUsedInCurrentWorkspace
           (example_env (Some [sqlite_entry ''/home/app/database.sqlite'']))
           (boot ConfigFileProvider, world0)))))))
   = [(Some ''/home/app/database.sqlite'', 0), (Some ''/home/app/database.sqlite'', 1)]"
  by (simp add: run_defs example_defs spec_defs)

text \<open>
  Claim C6. When the configuration artifact gives nothing (\<^verbatim>\<open>getConfigFileContent\<close>
  answers \<^verbatim>\<open>undefined\<close>, for an absent or unparsable file) or gives the empty list,
  \<^verbatim>\<open>canBeUsedInCurrentWorkspace\<close> answers \<open>False\<close> and changes nothing: no engine is
  built, no call is made, no message is shown, and the provider is as it was. On a freshly
  booted provider the cache therefore stays unset; it is not set to the empty list.
\<close>

theorem no_config_returns_false:
  assumes "getConfigFileContent env = None \<or> getConfigFileContent env = Some []"
  shows "canBeUsedInCurrentWorkspace env (this, w) = (False, this, w) \<and>
         cache (fst (snd (canBeUsedInCurrentWorkspace env (boot this, w)))) = None"
  using assms by (auto simp: canBeUsedInCurrentWorkspace_def boot_def)

theorem no_config_returns_false_witness:
  "canBeUsedInCurrentWorkspace (example_env None) (boot ConfigFileProvider, world0)
     = (False, boot ConfigFileProvider, world0)
   \<and> canBeUsedInCurrentWorkspace (example_env (Some [])) (boot ConfigFileProvider, world0)
     = (False, boot ConfigFileProvider, world0)
   \<and> cache (boot ConfigFileProvider) = None"
proof -
  have h1: "getConfigFileContent (example_env None) = None \<or>
            getConfigFileContent (example_env None) = Some []"
    by (simp add: example_env_def)
  have h2: "getConfigFileContent (example_env (Some [])) = None \<or>
            getConfigFileContent (example_env (Some [])) = Some []"
    by (simp add: example_env_def)
  from no_config_returns_false[OF h1] no_config_returns_false[OF h2] show ?thesis
    by (simp add: boot_def)
qed

text \<open>
  Claim C7, as the code has it. An entry that is examined and fails live validation adds
  no cache entry and does not stop the loop: the loop body falls through and the loop goes
  on with the next entry. What the user is told depends on where validation failed:
  \<^item> a sqlite entry: the fixed message
    \<^verbatim>\<open>The SQLite database specified in your config file is not valid.\<close>, which does not
    name the entry;
  \<^item> a server entry whose connection handle was obtained and whose engine is not healthy:
    one message, which contains the entry's name;
  \<^item> a server entry for which \<^verbatim>\<open>getConnectionFor\<close> gave no handle: no message from the
    provider.
\<close>

theorem failed_validation_is_entry_scoped:
  assumes "well_formed c" and "\<not> passes_live_validation env c"
  shows "\<exists>w'. loop_body env c (cs, w) = (None, (cs, w')) \<and>
           for_loop env (c # rest) (cs, w) = for_loop env rest (cs, w') \<and>
           (type_config c = ''sqlite'' \<longrightarrow>
              shown_messages w' = shown_messages w @
                [''The SQLite database specified in your config file is not valid.'']) \<and>
           (type_config c \<in> {''mysql'', ''mariadb''} \<and> connection_of env ''mysql'' c \<noteq> None \<longrightarrow>
              (\<exists>msg. shown_messages w' = shown_messages w @ [msg] \<and>
                     sublist (or_empty (name_config c)) msg)) \<and>
           (type_config c = ''postgres'' \<and> connection_of env ''postgres'' c \<noteq> None \<longrightarrow>
              (\<exists>msg. shown_messages w' = shown_messages w @ [msg] \<and>
                     sublist (or_empty (name_config c)) msg)) \<and>
           (type_config c \<in> {''mysql'', ''mariadb''} \<and> connection_of env ''mysql'' c = None \<longrightarrow>
              shown_messages w' = shown_messages w) \<and>
           (type_config c = ''postgres'' \<and> connection_of env ''postgres'' c = None \<longrightarrow>
              shown_messages w' = shown_messages w)"
proof (cases c rule: type_cases)
  case sqlite
  with assms(2) show ?thesis
    by (auto simp: loop_body_def sqlite_block_def mysql_block_def postgres_block_def
        sqliteConfigResolver_def passes_live_validation_def push_if_def new_engine_def
        engine_isOkay_def engine_boot_def showErrorMessage_def shown_messages_def)
next
  case mysql
  then have "server_type c" by (auto simp: server_type_def)
  from well_formed_server_has_name[OF assms(1) this] mysql assms(2)
    mysql_message_names[of "or_empty (name_config c)"]
  show ?thesis
    by (auto simp: loop_body_def sqlite_block_def mysql_block_def postgres_block_def
        mysqlConfigResolver_def passes_live_validation_def push_if_def new_engine_def
        engine_isOkay_def call_getConnectionFor_def showErrorMessage_def shown_messages_def
        connection_of_def split: option.splits)
next
  case postgres
  then have "server_type c" by (simp add: server_type_def)
  from well_formed_server_has_name[OF assms(1) this] postgres assms(2)
    postgres_message_names[of "or_empty (name_config c)"]
  show ?thesis
    by (auto simp: loop_body_def sqlite_block_def mysql_block_def postgres_block_def
        postgresConfigResolver_def passes_live_validation_def push_if_def new_engine_def
        engine_isOkay_def call_getConnectionFor_def showErrorMessage_def shown_messages_def
        connection_of_def split: option.splits)
next
  case other
  then show ?thesis
    by (simp add: loop_body_def sqlite_block_def mysql_block_def postgres_block_def)
qed

theorem failed_validation_is_entry_scoped_witness:
  "\<exists>w'. loop_body (example_env None) (server_entry ''mysql'' (Some ''staging'') ''10.0.0.9'')
           ([], world0) = (None, ([], w'))
       \<and> (\<exists>msg. shown_messages w' = [msg] \<and> sublist ''staging'' msg)"
proof -
  let ?c = "server_entry ''mysql'' (Some ''staging'') ''10.0.0.9''"
  have h1: "well_formed ?c" by (simp add: example_defs spec_defs falsy_def)
  have h2: "\<not> passes_live_validation (example_env None) ?c"
    by (simp add: example_defs spec_defs)
  have g: "type_config ?c \<in> {''mysql'', ''mariadb''} \<and>
           connection_of (example_env None) ''mysql'' ?c \<noteq> None"
    by (simp add: example_defs spec_defs)
  have s: "shown_messages world0 = []" "or_empty (name_config ?c) = ''staging''"
    by (simp_all add: example_defs spec_defs or_empty_def)
  from failed_validation_is_entry_scoped[OF h1 h2, of "[]" world0 "[]"] g show ?thesis
    unfolding s by auto
qed

text \<open>
  Claim C7 as stated fails: when the only entry is a sqlite entry whose file is not a
  valid database, no message shown during resolution contains the entry's path.
\<close>

theorem sqlite_failure_message_unnamed:
  "\<not> list_ex (sublist ''/tmp/missing.sqlite'')
       (shown_messages (snd (snd (canBeUsedInCurrentWorkspace
          (example_env (Some [sqlite_entry ''/tmp/missing.sqlite'']))
          (boot ConfigFileProvider, world0)))))"
proof -
  have "shown_messages (snd (snd (canBeUsedInCurrentWorkspace
          (example_env (Some [sqlite_entry ''/tmp/missing.sqlite'']))
          (boot ConfigFileProvider, world0))))
        = [''The SQLite database specified in your config file is not valid.'']"
    by (simp add: run_defs example_defs spec_defs)
  moreover have "\<not> sublist ''/tmp/missing.sqlite''
                   ''The SQLite database specified in your config file is not valid.''"
    by code_simp
  ultimately show ?thesis by simp
qed

text \<open>
  Claim C10. An entry whose type tag is none of \<^verbatim>\<open>sqlite\<close>, \<^verbatim>\<open>mysql\<close>,
  \<^verbatim>\<open>mariadb\<close> and \<^verbatim>\<open>postgres\<close> is skipped silently: the loop body leaves the
  cache and the world as they were (no entry, no message, no call) and falls through, the
  loop gives what it gives on the list without that entry, and so does
  \<^verbatim>\<open>canBeUsedInCurrentWorkspace\<close> whenever other entries remain.
\<close>

theorem unknown_type_skipped:
  assumes "type_config c \<notin> {''sqlite'', ''mysql'', ''mariadb'', ''postgres''}"
  shows "loop_body env c s = (None, s) \<and>
         for_loop env (before @ c # after) s = for_loop env (before @ after) s \<and>
         (before @ after \<noteq> [] \<longrightarrow>
            canBeUsedInCurrentWorkspace
              (env\<lparr>getConfigFileContent := Some (before @ c # after)\<rparr>) ps =
            canBeUsedInCurrentWorkspace
              (env\<lparr>getConfigFileContent := Some (before @ after)\<rparr>) ps)"
proof -
  have 1: "loop_body env c s = (None, s)" by (rule loop_body_unknown[OF assms])
  have 2: "for_loop env (before @ c # after) s' = for_loop env (before @ after) s'" for s'
    by (rule for_loop_unknown[OF assms])
  have 3: "canBeUsedInCurrentWorkspace
             (env\<lparr>getConfigFileContent := Some (before @ c # after)\<rparr>) ps =
           canBeUsedInCurrentWorkspace
             (env\<lparr>getConfigFileContent := Some (before @ after)\<rparr>) ps"
    if "before @ after \<noteq> []"
    using that
    by (cases ps) (auto simp: canBeUsedInCurrentWorkspace_def for_loop_content_irrelevant 2)
  from 1 2 3 show ?thesis by blast
qed

theorem unknown_type_skipped_witness:
  "loop_body (example_env None) (server_entry ''oracle'' (Some ''erp'') ''127.0.0.1'') ([], world0)
     = (None, ([], world0))
   \<and> canBeUsedInCurrentWorkspace
       ((example_env None)\<lparr>getConfigFileContent :=
          Some ([sqlite_entry ''/home/app/database.sqlite'']
                 @ server_entry ''oracle'' (Some ''erp'') ''127.0.0.1'' # [])\<rparr>)
       (boot ConfigFileProvider, world0)
     = canBeUsedInCurrentWorkspace
       ((example_env None)\<lparr>getConfigFileContent :=
          Some ([sqlite_entry ''/home/app/database.sqlite''] @ [])\<rparr>)
       (boot ConfigFileProvider, world0)"
proof -
  have h: "type_config (server_entry ''oracle'' (Some ''erp'') ''127.0.0.1'')
             \<notin> {''sqlite'', ''mysql'', ''mariadb'', ''postgres''}"
    by (simp add: example_defs)
  have n: "[sqlite_entry ''/home/app/database.sqlite''] @ [] \<noteq> []" by simp
  from unknown_type_skipped[OF h, of "example_env None" "([], world0)"
          "[sqlite_entry ''/home/app/database.sqlite'']" "[]" "(boot ConfigFileProvider, world0)"] n
  show ?thesis by blast
qed

section \<open>Properties of selection\<close>

text \<open>
  Claim C4. Let the cache hold an entry under the identity \<open>A\<close> and a single entry under
  a different identity \<open>B\<close>, on different engine objects (as every cache built by
  resolution has them, by \<open>canBeUsed_engines_fresh\<close>). Then
  \<^verbatim>\<open>getDatabaseEngine({id: B})\<close> returns the engine cached under \<open>B\<close>, which is not
  the one cached under \<open>A\<close>. Called again for \<open>B\<close> it returns the same engine object.
  Neither call validates anything: the cache is untouched, no engine is built, and the
  only effect of each call is one \<^verbatim>\<open>boot()\<close> of that engine (the engine defines
  \<^verbatim>\<open>boot\<close>, as the engine contract requires of every engine).
\<close>

theorem getDatabaseEngine_selects_by_id:
  assumes "cache this = Some cs"
    and "distinct (map (\<lambda>e. ref (engine_cache e)) cs)"
    and "eA \<in> set cs" and "id_cache eA = Some A"
    and "eB \<in> set cs" and "id_cache eB = Some B"
    and "\<forall>e\<in>set cs. id_cache e = Some B \<longrightarrow> e = eB"
    and "A \<noteq> B"
    and "has_boot env (impl (engine_cache eB))"
  shows "getDatabaseEngine env (Some \<lparr>option_id = B\<rparr>) (this, w) =
           (Some (engine_cache eB), this\<lparr>engine := Some (engine_cache eB)\<rparr>,
            engine_boot (engine_cache eB) w)
         \<and> getDatabaseEngine env (Some \<lparr>option_id = B\<rparr>)
             (this\<lparr>engine := Some (engine_cache eB)\<rparr>, engine_boot (engine_cache eB) w) =
           (Some (engine_cache eB), this\<lparr>engine := Some (engine_cache eB)\<rparr>,
            engine_boot (engine_cache eB) (engine_boot (engine_cache eB) w))
         \<and> engine_cache eB \<noteq> engine_cache eA"
proof -
  have "find (\<lambda>e. id_cache e = Some B) cs = Some eB"
    by (rule find_only[where P = "\<lambda>e. id_cache e = Some B", OF assms(5) assms(6) assms(7)])
  then have f: "find_option (Some cs) \<lparr>option_id = B\<rparr> = Some eB"
    by (simp add: find_option_def)
  have "eA \<noteq> eB" using assms(4,6,8) by auto
  with assms(2,3,5) have "ref (engine_cache eA) \<noteq> ref (engine_cache eB)"
    by (metis distinct_map inj_onD)
  then have "engine_cache eB \<noteq> engine_cache eA" by auto
  with f assms(1,9) show ?thesis
    by (simp add: getDatabaseEngine_def boot_and_return_def)
qed

theorem getDatabaseEngine_selects_by_id_witness:
  "getDatabaseEngine (example_env None) (Some \<lparr>option_id = ''B''\<rparr>)
     (ConfigFileProvider\<lparr>cache := Some [example_entry ''A'' 0 (SqliteJsEngine ''/a.sqlite''),
                                          example_entry ''B'' 1 (MysqlEngine (Connection 1))]\<rparr>,
      world0\<lparr>next_ref := 2\<rparr>)
   = (Some \<lparr>ref = 1, impl = MysqlEngine (Connection 1)\<rparr>,
      ConfigFileProvider\<lparr>cache := Some [example_entry ''A'' 0 (SqliteJsEngine ''/a.sqlite''),
                                          example_entry ''B'' 1 (MysqlEngine (Connection 1))],
                         engine := Some \<lparr>ref = 1, impl = MysqlEngine (Connection 1)\<rparr>\<rparr>,
      \<lparr>next_ref = 2, events = [CalledBoot \<lparr>ref = 1, impl = MysqlEngine (Connection 1)\<rparr>]\<rparr>)"
proof -
  let ?eA = "example_entry ''A'' 0 (SqliteJsEngine ''/a.sqlite'')"
  let ?eB = "example_entry ''B'' 1 (MysqlEngine (Connection 1))"
  let ?prov = "ConfigFileProvider\<lparr>cache := Some [?eA, ?eB]\<rparr>"
  have h1: "cache ?prov = Some [?eA, ?eB]" by simp
  have h2: "distinct (map (\<lambda>e. ref (engine_cache e)) [?eA, ?eB])"
    by (simp add: example_entry_def)
  have h3: "?eA \<in> set [?eA, ?eB]" by simp
  have h4: "id_cache ?eA = Some ''A''" by (simp add: example_entry_def)
  have h5: "?eB \<in> set [?eA, ?eB]" by simp
  have h6: "id_cache ?eB = Some ''B''" by (simp add: example_entry_def)
  have h7: "\<forall>e\<in>set [?eA, ?eB]. id_cache e = Some ''B'' \<longrightarrow> e = ?eB"
    by (simp add: example_entry_def)
  have h8: "''A'' \<noteq> ''B''" by simp
  have h9: "has_boot (example_env None) (impl (engine_cache ?eB))"
    by (simp add: example_env_def)
  from getDatabaseEngine_selects_by_id[OF h1 h2 h3 h4 h5 h6 h7 h8 h9, of "world0\<lparr>next_ref := 2\<rparr>"]
  show ?thesis
    by (simp add: example_entry_def engine_boot_def world0_def ConfigFileProvider_def)
qed

text \<open>
  Claim C5. \<^verbatim>\<open>boot\<close> is a total function of the provider, with no error result, and
  leaves both \<^verbatim>\<open>cache\<close> and \<^verbatim>\<open>engine\<close> unset. Right after it
  \<^verbatim>\<open>getDatabaseEngine\<close> returns no engine: silently when called without an option, and
  after showing \<^verbatim>\<open>Could not find option with id ...\<close> when an option is given.
\<close>

theorem boot_clears_provider:
  "cache (boot this) = None \<and> engine (boot this) = None \<and>
   getDatabaseEngine env None (boot this, w) = (None, boot this, w) \<and>
   getDatabaseEngine env (Some opt) (boot this, w) =
     (None, boot this,
      showErrorMessage (''Could not find option with id '' @ option_id opt) w)"
  by (simp add: boot_def getDatabaseEngine_def boot_and_return_def find_option_def)

theorem boot_clears_provider_witness:
  "getDatabaseEngine (example_env None) (Some \<lparr>option_id = ''B''\<rparr>)
     (boot (ConfigFileProvider\<lparr>cache := Some [example_entry ''B'' 0 (SqliteJsEngine ''/b.sqlite'')],
                               engine := Some \<lparr>ref = 0, impl = SqliteJsEngine ''/b.sqlite''\<rparr>\<rparr>),
      world0)
   = (None, ConfigFileProvider,
      \<lparr>next_ref = 0, events = [ShownErrorMessage ''Could not find option with id B'']\<rparr>)"
  using boot_clears_provider
          [of "ConfigFileProvider\<lparr>cache := Some [example_entry ''B'' 0 (SqliteJsEngine ''/b.sqlite'')],
                                   engine := Some \<lparr>ref = 0, impl = SqliteJsEngine ''/b.sqlite''\<rparr>\<rparr>"
              "example_env None" world0 "\<lparr>option_id = ''B''\<rparr>"]
  by (simp add: boot_def ConfigFileProvider_def showErrorMessage_def world0_def)

text \<open>
  Claim C9. With an engine selected earlier, \<^verbatim>\<open>getDatabaseEngine({id: X})\<close> for an
  identity \<open>X\<close> that the cache does not hold shows the lookup error and returns no engine,
  and leaves the provider (cache and selected engine) as it was. A following call without
  an option returns the engine selected earlier, after calling its \<^verbatim>\<open>boot()\<close> when the
  engine defines it.
\<close>

theorem lookup_miss_keeps_selection:
  assumes "engine this = Some e" and "Some (option_id opt) \<notin> cached_ids this"
  shows "getDatabaseEngine env (Some opt) (this, w) =
           (None, this, showErrorMessage (''Could not find option with id '' @ option_id opt) w)
       \<and> getDatabaseEngine env' None (this, w') =
           (Some e, this, if has_boot env' (impl e) then engine_boot e w' else w')"
  using assms
  by (simp add: getDatabaseEngine_def find_option_absent boot_and_return_def)

theorem lookup_miss_keeps_selection_witness:
  "getDatabaseEngine (example_env None) (Some \<lparr>option_id = ''X''\<rparr>)
     (ConfigFileProvider\<lparr>cache := Some [example_entry ''B'' 0 (SqliteJsEngine ''/b.sqlite'')],
                         engine := Some \<lparr>ref = 0, impl = SqliteJsEngine ''/b.sqlite''\<rparr>\<rparr>,
      world0\<lparr>next_ref := 1\<rparr>)
   = (None,
      ConfigFileProvider\<lparr>cache := Some [example_entry ''B'' 0 (SqliteJsEngine ''/b.sqlite'')],
                         engine := Some \<lparr>ref = 0, impl = SqliteJsEngine ''/b.sqlite''\<rparr>\<rparr>,
      \<lparr>next_ref = 1, events = [ShownErrorMessage ''Could not find option with id X'']\<rparr>)
   \<and> getDatabaseEngine (example_env None) None
     (ConfigFileProvider\<lparr>cache := Some [example_entry ''B'' 0 (SqliteJsEngine ''/b.sqlite'')],
                         engine := Some \<lparr>ref = 0, impl = SqliteJsEngine ''/b.sqlite''\<rparr>\<rparr>,
      \<lparr>next_ref = 1, events = [ShownErrorMessage ''Could not find option with id X'']\<rparr>)
     = (Some \<lparr>ref = 0, impl = SqliteJsEngine ''/b.sqlite''\<rparr>,
        ConfigFileProvider\<lparr>cache := Some [example_entry ''B'' 0 (SqliteJsEngine ''/b.sqlite'')],
                         engine := Some \<lparr>ref = 0, impl = SqliteJsEngine ''/b.sqlite''\<rparr>\<rparr>,
        \<lparr>next_ref = 1,
         events = [ShownErrorMessage ''Could not find option with id X'',
                   CalledBoot \<lparr>ref = 0, impl = SqliteJsEngine ''/b.sqlite''\<rparr>]\<rparr>)"
proof -
  let ?prov = "ConfigFileProvider\<lparr>cache := Some [example_entry ''B'' 0 (SqliteJsEngine ''/b.sqlite'')],
                         engine := Some \<lparr>ref = 0, impl = SqliteJsEngine ''/b.sqlite''\<rparr>\<rparr>"
  have h1: "engine ?prov = Some \<lparr>ref = 0, impl = SqliteJsEngine ''/b.sqlite''\<rparr>" by simp
  have h2: "Some (option_id \<lparr>option_id = ''X''\<rparr>) \<notin> cached_ids ?prov"
    by (simp add: cached_ids_def example_entry_def)
  from lookup_miss_keeps_selection[OF h1 h2, where env = "example_env None"
        and w = "world0\<lparr>next_ref := 1\<rparr>" and env' = "example_env None"
        and w' = "\<lparr>next_ref = 1, events = [ShownErrorMessage ''Could not find option with id X'']\<rparr>"]
  show ?thesis
    by (simp add: showErrorMessage_def engine_boot_def world0_def example_env_def)
qed

section \<open>Resolution followed by selection\<close>

text \<open>
  Claim C8. Let the configuration list hold exactly one sqlite entry and one mysql entry
  with a non-empty name, in either order, the path of the one different from the name of
  the other, and let both pass live validation. On a freshly booted provider
  \<^verbatim>\<open>canBeUsedInCurrentWorkspace\<close> then answers \<open>True\<close> and leaves exactly two cache
  entries, one under the sqlite entry's path and one under the mysql entry's name, on two
  different engines; \<^verbatim>\<open>getDatabaseEngine\<close> with the path returns the engine of the
  first, and with the name the engine of the second.
\<close>

theorem sqlite_and_mysql_both_cached:
  assumes "type_config s = ''sqlite''" and "type_config m = ''mysql''"
    and "name_config m = Some n" and "n \<noteq> []" and "path s \<noteq> n"
    and "passes_live_validation env s" and "passes_live_validation env m"
    and "getConfigFileContent env = Some [s, m] \<or> getConfigFileContent env = Some [m, s]"
    and "canBeUsedInCurrentWorkspace env (boot this, w) = (r, this', w')"
  shows "r \<and> length (cached this') = 2 \<and>
         (\<exists>es em. set (cached this') = {es, em} \<and>
            id_cache es = Some (path s) \<and> id_cache em = Some n \<and>
            engine_cache es \<noteq> engine_cache em \<and>
            fst (getDatabaseEngine env2 (Some \<lparr>option_id = path s\<rparr>) (this', w2))
              = Some (engine_cache es) \<and>
            fst (getDatabaseEngine env2 (Some \<lparr>option_id = n\<rparr>) (this', w2))
              = Some (engine_cache em))"
proof -
  have wfs: "well_formed s"
    using assms(1) by (simp add: well_formed_def nameless_server_def server_type_def)
  have wfm: "well_formed m"
    using assms(3,4) by (simp add: well_formed_def nameless_server_def falsy_def)
  have ids: "identity s = Some (path s)" "identity m = Some n"
    using assms(1,2,3) by (simp_all add: identity_def)
  have b: "cached (boot this) = []" by (simp add: cached_def boot_def)
  obtain cfgs where c: "getConfigFileContent env = Some cfgs"
    and o: "cfgs = [s, m] \<or> cfgs = [m, s]"
    using assms(8) by blast
  from o have ne: "cfgs \<noteq> []" by auto
  from o wfs wfm have wf: "list_all well_formed cfgs" "takeWhile well_formed cfgs = cfgs"
    by auto
  from o assms(6,7) have p: "filter (passes_live_validation env) cfgs = cfgs" by auto
  from canBeUsed_result[OF c ne, of "boot this" w] assms(9) obtain new
    where r: "r = (list_all well_formed cfgs \<and> new \<noteq> [])"
      and t: "this' = (boot this)\<lparr>cache := Some new\<rparr>"
      and l: "loop_adds env cfgs w new w'"
    unfolding b by auto
  from l wf p have m: "map id_cache new = map identity cfgs"
    and d: "distinct (map (\<lambda>e. ref (engine_cache e)) new)"
    by (simp_all add: loop_adds_def)
  have ct: "cached this' = new" "cache this' = Some new" using t by (simp_all add: cached_def)
  from o show ?thesis
  proof
    assume "cfgs = [s, m]"
    with m ids have "map id_cache new = [Some (path s), Some n]" by simp
    from map_eq_two[OF this] obtain es em where n: "new = [es, em]"
      and i: "id_cache es = Some (path s)" "id_cache em = Some n" by blast
    from d n have "engine_cache es \<noteq> engine_cache em" by auto
    with n i r wf assms(5) show ?thesis unfolding ct
      by (auto simp: getDatabaseEngine_def find_option_def ct boot_and_return_def)
  next
    assume "cfgs = [m, s]"
    with m ids have "map id_cache new = [Some n, Some (path s)]" by simp
    from map_eq_two[OF this] obtain es em where n: "new = [em, es]"
      and i: "id_cache es = Some (path s)" "id_cache em = Some n" by blast
    from d n have "engine_cache es \<noteq> engine_cache em" by auto
    with n i r wf assms(5) show ?thesis unfolding ct
      by (auto simp: getDatabaseEngine_def find_option_def ct boot_and_return_def)
  qed
qed

theorem sqlite_and_mysql_both_cached_witness:
  "fst (canBeUsedInCurrentWorkspace
         (example_env (Some [sqlite_entry ''/home/app/database.sqlite'',
                             server_entry ''mysql'' (Some ''My test MySQL database'') ''127.0.0.1'']))
         (boot ConfigFileProvider, world0))
   \<and> length (cached (fst (snd (canBeUsedInCurrentWorkspace
         (example_env (Some [sqlite_entry ''/home/app/database.sqlite'',
                             server_entry ''mysql'' (Some ''My test MySQL database'') ''127.0.0.1'']))
         (boot ConfigFileProvider, world0))))) = 2"
proof -
  let ?s = "sqlite_entry ''/home/app/database.sqlite''"
  let ?m = "server_entry ''mysql'' (Some ''My test MySQL database'') ''127.0.0.1''"
  let ?E = "example_env (Some [?s, ?m])"
  let ?R = "canBeUsedInCurrentWorkspace ?E (boot ConfigFileProvider, world0)"
  have h1: "type_config ?s = ''sqlite''" by (simp add: example_defs)
  have h2: "type_config ?m = ''mysql''" by (simp add: example_defs)
  have h3: "name_config ?m = Some ''My test MySQL database''" by (simp add: example_defs)
  have h4: "''My test MySQL database'' \<noteq> []" by simp
  have h5: "path ?s \<noteq> ''My test MySQL database''" by (simp add: example_defs)
  have h6: "passes_live_validation ?E ?s" by (simp add: example_defs spec_defs)
  have h7: "passes_live_validation ?E ?m" by (simp add: example_defs spec_defs)
  have h8: "getConfigFileContent ?E = Some [?s, ?m] \<or> getConfigFileContent ?E = Some [?m, ?s]"
    by (simp add: example_env_def)
  have h9: "?R = (fst ?R, fst (snd ?R), snd (snd ?R))" by simp
  from sqlite_and_mysql_both_cached[OF h1 h2 h3 h4 h5 h6 h7 h8 h9] show ?thesis by blast
qed

end
